theory Spec2Isabelle
  imports Complex_Main "HOL-Library.Log_Nat"
begin

section \<open>Data model\<close>

text \<open>
  The program is \<^verbatim>\<open>AssignmentCode.py\<close>: a configuration singleton, two pricing
  strategies, three payment methods, two decorators and the class
  \<^verbatim>\<open>CabBookingSystem\<close>.

  Numbers: distances, fares and amounts are Python floats. Where a method only carries
  a number along (prints it, stores it in the result, passes it to the next call) the
  number is a \<^typ>\<open>real\<close>, and so are the two pricing bodies that the booking
  methods call: an idealisation that leaves out the rounding, the infinities and the
  NaN of IEEE arithmetic. The two pricing bodies are given a second time on IEEE
  doubles, as Python evaluates them, for what depends on the arithmetic itself.
\<close>

subsection \<open>Standard output\<close>

text \<open>
  Every \<^verbatim>\<open>print\<close> of the source is one constructor, carrying the values the
  f-string interpolates (the formatting of a number with \<^verbatim>\<open>:.2f\<close> is not modelled):
  \<^item> \<open>AuthUser u\<close>: line 64, \<^verbatim>\<open>[AUTH] User: {u}\<close>;
  \<^item> \<open>AuthFailed\<close>: line 66, \<^verbatim>\<open>[AUTH] Failed - Not logged in!\<close>;
  \<^item> \<open>AuthSuccess\<close>: line 68, \<^verbatim>\<open>[AUTH] Success!\<close>;
  \<^item> \<open>BookingStarted t\<close>: line 77, \<^verbatim>\<open>[LOG] {t} - Booking started\<close>;
  \<^item> \<open>BookingStatus s\<close>: line 80, \<^verbatim>\<open>[LOG] Booking {s}\<close>;
  \<^item> \<open>ErrorNotice\<close>: line 103, \<^verbatim>\<open>[ERROR] Set pricing and payment method first!\<close>;
  \<^item> \<open>RideNotice p d k\<close>: line 107, the ride from \<open>p\<close> to \<open>d\<close> of \<open>k\<close> km;
  \<^item> \<open>FareNotice c f\<close>: line 108, \<^verbatim>\<open>Fare: {c}{f:.2f}\<close>;
  \<^item> \<open>PaymentNotice n c a\<close>: lines 44, 50 and 56,
    \<^verbatim>\<open>{n} payment of {c}{a:.2f} - Success!\<close>.
\<close>

datatype notice =
    AuthUser string
  | AuthFailed
  | AuthSuccess
  | BookingStarted string
  | BookingStatus string
  | ErrorNotice
  | RideNotice string string real
  | FareNotice string real
  | PaymentNotice string string real

subsection \<open>The configuration singleton and the process state\<close>

record AppConfig =
  app_name :: string
  currency_symbol :: string

text \<open>
  What the methods read and write beyond their receiver: the class attribute
  \<^verbatim>\<open>AppConfig._instance\<close> (\<open>None\<close> until the first access), the text that
  \<^verbatim>\<open>datetime.now().strftime('%Y-%m-%d %H:%M:%S')\<close> yields (an input: the passing of
  time is not modelled), and the lines printed so far, oldest first.
\<close>

record world =
  AppConfig_instance :: "AppConfig option"
  clock :: string
  stdout :: "notice list"

definition py_print :: "notice \<Rightarrow> world \<Rightarrow> world" where
  "py_print n w = w\<lparr>stdout := stdout w @ [n]\<rparr>"

text \<open>The rupee sign U+20B9, as its three UTF-8 bytes.\<close>

definition rupee :: string where
  "rupee = [CHR 0xE2, CHR 0x82, CHR 0xB9]"

text \<open>
  \<^verbatim>\<open>AppConfig.__new__\<close> (lines 10-15). The object is never written after its
  creation, so a reference to it is modelled by its value.
\<close>

definition AppConfig_new :: "world \<Rightarrow> AppConfig \<times> world" where
  "AppConfig_new w =
     (case AppConfig_instance w of
        None \<Rightarrow>
          (let c = \<lparr>app_name = ''MiniCab'', currency_symbol = rupee\<rparr>
           in (c, w\<lparr>AppConfig_instance := Some c\<rparr>))
      | Some c \<Rightarrow> (c, w))"

subsection \<open>Pricing strategies\<close>

datatype PricingStrategy = NormalPricing | SurgePricing

definition NormalPricing_calculate_fare :: "real \<Rightarrow> real" where
  "NormalPricing_calculate_fare distance_km = distance_km * 10"

definition SurgePricing_calculate_fare :: "real \<Rightarrow> real" where
  "SurgePricing_calculate_fare distance_km = distance_km * 25"

text \<open>The dynamic dispatch of \<^verbatim>\<open>strategy.calculate_fare(distance_km)\<close>.\<close>

fun calculate_fare :: "PricingStrategy \<Rightarrow> real \<Rightarrow> real" where
  "calculate_fare NormalPricing distance_km = NormalPricing_calculate_fare distance_km"
| "calculate_fare SurgePricing distance_km = SurgePricing_calculate_fare distance_km"

subsection \<open>The pricing bodies on IEEE doubles\<close>

text \<open>
  A Python float is an IEEE 754 binary64 number. \<open>Finite s m e\<close> is the number
  \<open>(-1)^s * m * 2^e\<close> with a significand \<open>m\<close> below \<open>2^53\<close> and an exponent \<open>e\<close> from
  \<open>-1074\<close> to \<open>971\<close> (both zeros, the subnormal and the normal numbers; one number may
  have several such forms, and \<open>valof\<close> reads the number itself); \<open>Infinity s\<close> is
  \<open>inf\<close> or \<open>-inf\<close>, and \<open>NaN\<close> is not a number.
\<close>

datatype py_float = Finite bool nat int | Infinity bool | NaN

definition pow2 :: "int \<Rightarrow> real" where
  "pow2 e = (if 0 \<le> e then 2 ^ nat e else 1 / 2 ^ nat (- e))"

fun is_double :: "py_float \<Rightarrow> bool" where
  "is_double (Finite s m e) = (m < 2 ^ 53 \<and> - 1074 \<le> e \<and> e \<le> 971)"
| "is_double (Infinity s) = True"
| "is_double NaN = True"

fun valof :: "py_float \<Rightarrow> real option" where
  "valof (Finite s m e) = Some ((if s then - 1 else 1) * real m * pow2 e)"
| "valof (Infinity s) = None"
| "valof NaN = None"

text \<open>Python's \<^verbatim>\<open>x >= 0\<close>: true of both zeros and of \<open>inf\<close>, false of \<open>NaN\<close>.\<close>

fun float_nonneg :: "py_float \<Rightarrow> bool" where
  "float_nonneg (Finite s m e) = (if s then m = 0 else True)"
| "float_nonneg (Infinity s) = (\<not> s)"
| "float_nonneg NaN = False"

text \<open>
  \<open>round_half_even M k\<close> is \<open>M / 2^k\<close> rounded to the nearest integer, a tie going to
  the even one. \<open>round_double s M e\<close> is the double that IEEE 754 gives for the exact
  number \<open>(-1)^s * M * 2^e\<close>: the exponent \<open>t\<close> of the last kept bit leaves 53 bits of
  significand and is not below \<open>-1074\<close>; the bits below it are rounded to nearest,
  ties to even; a result that reaches \<open>2^1024\<close> is the infinity of its sign.
\<close>

definition round_half_even :: "nat \<Rightarrow> nat \<Rightarrow> nat" where
  "round_half_even M k =
     (let q = M div 2 ^ k; r = M mod 2 ^ k
      in if 2 * r < 2 ^ k then q
         else if 2 ^ k < 2 * r then q + 1
         else if even q then q else q + 1)"

definition round_double :: "bool \<Rightarrow> nat \<Rightarrow> int \<Rightarrow> py_float" where
  "round_double s M e =
     (if M = 0 then Finite s 0 0
      else let t = max (e + bitlen (int M) - 53) (- 1074) in
        if t \<le> e then
          (if 971 < t then Infinity s else Finite s (M * 2 ^ nat (e - t)) t)
        else
          (let m = round_half_even M (nat (t - e)) in
           if m = 2 ^ 53 then (if 970 < t then Infinity s else Finite s (2 ^ 52) (t + 1))
           else if 971 < t then Infinity s else Finite s m t))"

text \<open>The product of two doubles, as \<^verbatim>\<open>*\<close> on Python floats computes it.\<close>

fun float_mul :: "py_float \<Rightarrow> py_float \<Rightarrow> py_float" where
  "float_mul NaN y = NaN"
| "float_mul x NaN = NaN"
| "float_mul (Infinity s) (Infinity s') = Infinity (s \<noteq> s')"
| "float_mul (Infinity s) (Finite s' m e) = (if m = 0 then NaN else Infinity (s \<noteq> s'))"
| "float_mul (Finite s m e) (Infinity s') = (if m = 0 then NaN else Infinity (s \<noteq> s'))"
| "float_mul (Finite s m e) (Finite s' m' e') = round_double (s \<noteq> s') (m * m') (e + e')"

text \<open>
  Lines 27 and 32 on a float argument: Python converts the int constant to the double
  of the same value (\<open>10.0\<close>, \<open>25.0\<close>) and multiplies the two doubles.
\<close>

definition NormalPricing_calculate_fare_float :: "py_float \<Rightarrow> py_float" where
  "NormalPricing_calculate_fare_float distance_km = float_mul distance_km (Finite False 10 0)"

definition SurgePricing_calculate_fare_float :: "py_float \<Rightarrow> py_float" where
  "SurgePricing_calculate_fare_float distance_km = float_mul distance_km (Finite False 25 0)"

subsection \<open>Payment methods\<close>

datatype PaymentMethod = UPIPayment | CardPayment | WalletPayment

definition UPIPayment_process_payment :: "real \<Rightarrow> world \<Rightarrow> bool \<times> world" where
  "UPIPayment_process_payment amount w =
     (let (cfg, w1) = AppConfig_new w
      in (True, py_print (PaymentNotice ''UPI'' (currency_symbol cfg) amount) w1))"

definition CardPayment_process_payment :: "real \<Rightarrow> world \<Rightarrow> bool \<times> world" where
  "CardPayment_process_payment amount w =
     (let (cfg, w1) = AppConfig_new w
      in (True, py_print (PaymentNotice ''Card'' (currency_symbol cfg) amount) w1))"

definition WalletPayment_process_payment :: "real \<Rightarrow> world \<Rightarrow> bool \<times> world" where
  "WalletPayment_process_payment amount w =
     (let (cfg, w1) = AppConfig_new w
      in (True, py_print (PaymentNotice ''Wallet'' (currency_symbol cfg) amount) w1))"

text \<open>The dynamic dispatch of \<^verbatim>\<open>method.process_payment(amount)\<close>.\<close>

fun process_payment :: "PaymentMethod \<Rightarrow> real \<Rightarrow> world \<Rightarrow> bool \<times> world" where
  "process_payment UPIPayment amount w = UPIPayment_process_payment amount w"
| "process_payment CardPayment amount w = CardPayment_process_payment amount w"
| "process_payment WalletPayment amount w = WalletPayment_process_payment amount w"

subsection \<open>The booking system\<close>

text \<open>
  The attributes \<^verbatim>\<open>__init__\<close> sets. A strategy attribute is \<open>None\<close> until its
  setter has run; an instance of a strategy class is truthy.
\<close>

record CabBookingSystem =
  user_name :: string
  is_authenticated :: bool
  pricing_strategy :: "PricingStrategy option"
  payment_method :: "PaymentMethod option"
  config :: AppConfig

text \<open>
  The value \<^verbatim>\<open>book_ride\<close> returns: \<open>None\<close>, or a dict with string keys, kept as an
  association list in insertion order.
\<close>

datatype pyval = PyStr string | PyFloat real

type_synonym booking = "(string \<times> pyval) list"

text \<open>Python's truth value of such a result: \<open>None\<close> and the empty dict are false.\<close>

definition truthy :: "booking option \<Rightarrow> bool" where
  "truthy r = (case r of None \<Rightarrow> False | Some d \<Rightarrow> (case d of [] \<Rightarrow> False | _ # _ \<Rightarrow> True))"

text \<open>
  A method takes its receiver, its arguments and the process state, and gives its
  result, the receiver afterwards and the process state afterwards.
\<close>

type_synonym ('a, 'r) py_method =
  "CabBookingSystem \<Rightarrow> 'a \<Rightarrow> world \<Rightarrow> 'r \<times> CabBookingSystem \<times> world"

text \<open>
  \<^verbatim>\<open>CabBookingSystem.__init__\<close> (lines 86-91); \<^verbatim>\<open>is_authenticated\<close> defaults to
  \<open>True\<close> when the caller leaves it out.
\<close>

definition CabBookingSystem_init :: "string \<Rightarrow> bool \<Rightarrow> world \<Rightarrow> CabBookingSystem \<times> world" where
  "CabBookingSystem_init name authenticated w =
     (let (cfg, w1) = AppConfig_new w
      in (\<lparr>user_name = name, is_authenticated = authenticated,
           pricing_strategy = None, payment_method = None, config = cfg\<rparr>, w1))"

definition set_pricing :: "CabBookingSystem \<Rightarrow> PricingStrategy \<Rightarrow> CabBookingSystem" where
  "set_pricing self strategy = self\<lparr>pricing_strategy := Some strategy\<rparr>"

definition set_payment :: "CabBookingSystem \<Rightarrow> PaymentMethod \<Rightarrow> CabBookingSystem" where
  "set_payment self method = self\<lparr>payment_method := Some method\<rparr>"

text \<open>The decorator \<^verbatim>\<open>authenticate\<close> (lines 60-70): \<open>authenticate func\<close> is its wrapper.\<close>

definition authenticate :: "('a, 'r option) py_method \<Rightarrow> ('a, 'r option) py_method" where
  "authenticate func self args w =
     (let w1 = py_print (AuthUser (user_name self)) w
      in if \<not> is_authenticated self
         then (None, self, py_print AuthFailed w1)
         else func self args (py_print AuthSuccess w1))"

text \<open>The decorator \<^verbatim>\<open>log_operation\<close> (lines 73-82).\<close>

definition log_operation :: "('a, booking option) py_method \<Rightarrow> ('a, booking option) py_method" where
  "log_operation func self args w =
     (let w1 = py_print (BookingStarted (clock w)) w;
          (result, self1, w2) = func self args w1;
          status = (if truthy result then ''Success'' else ''Failed'')
      in (result, self1, py_print (BookingStatus status) w2))"

text \<open>
  The function the decorators wrap (lines 101-112), which Python keeps as
  \<^verbatim>\<open>book_ride.__wrapped__\<close>. The arguments are (pickup, destination, distance_km).
\<close>

definition book_ride_wrapped :: "(string \<times> string \<times> real, booking option) py_method" where
  "book_ride_wrapped self args w =
     (case args of (pickup, destination, distance_km) \<Rightarrow>
        let missing = (None, self, py_print ErrorNotice w) in
        (case pricing_strategy self of
           None \<Rightarrow> missing
         | Some strategy \<Rightarrow>
             (case payment_method self of
                None \<Rightarrow> missing
              | Some method \<Rightarrow>
                  (let fare = calculate_fare strategy distance_km;
                       w1 = py_print (RideNotice pickup destination distance_km) w;
                       w2 = py_print (FareNotice (currency_symbol (config self)) fare) w1;
                       (paid, w3) = process_payment method fare w2
                   in if paid
                      then (Some [(''pickup'', PyStr pickup),
                                  (''destination'', PyStr destination),
                                  (''fare'', PyFloat fare)], self, w3)
                      else (None, self, w3)))))"

text \<open>\<^verbatim>\<open>book_ride\<close> as the class binds it: \<^verbatim>\<open>@authenticate\<close> over \<^verbatim>\<open>@log_operation\<close>.\<close>

definition book_ride :: "(string \<times> string \<times> real, booking option) py_method" where
  "book_ride = authenticate (log_operation book_ride_wrapped)"

subsection \<open>Observing a run\<close>

text \<open>What was printed between the process states \<open>w\<close> and \<open>w'\<close>.\<close>

definition printed :: "world \<Rightarrow> world \<Rightarrow> notice list" where
  "printed w w' = drop (length (stdout w)) (stdout w')"

fun is_booking_started :: "notice \<Rightarrow> bool" where
  "is_booking_started (BookingStarted t) = True"
| "is_booking_started n = False"

fun is_fare_notice :: "notice \<Rightarrow> bool" where
  "is_fare_notice (FareNotice c f) = True"
| "is_fare_notice n = False"

fun is_payment_notice :: "notice \<Rightarrow> bool" where
  "is_payment_notice (PaymentNotice n c a) = True"
| "is_payment_notice n = False"

text \<open>
  The calls of the module that touch the process state, as the script of lines 115-145
  makes them: an access \<^verbatim>\<open>AppConfig()\<close>, the construction of a booking system, a
  payment, a booking by any booking system, and the clock moving on. The setters touch
  their receiver only. A process is a list of such calls, run in order.
\<close>

datatype operation =
    Access
  | Construct string bool
  | Pay PaymentMethod real
  | Book CabBookingSystem string string real
  | Tick string

fun perform :: "operation \<Rightarrow> world \<Rightarrow> world" where
  "perform Access w = snd (AppConfig_new w)"
| "perform (Construct name authenticated) w = snd (CabBookingSystem_init name authenticated w)"
| "perform (Pay pm amount) w = snd (process_payment pm amount w)"
| "perform (Book system pickup destination distance_km) w =
     snd (snd (book_ride system (pickup, destination, distance_km) w))"
| "perform (Tick t) w = w\<lparr>clock := t\<rparr>"

definition run :: "operation list \<Rightarrow> world \<Rightarrow> world" where
  "run ops w = fold perform ops w"

text \<open>
  The process state once the module is loaded (line 8 has set \<^verbatim>\<open>_instance\<close> to
  \<open>None\<close>, nothing is printed yet), at one reading of the clock.
\<close>

definition module_loaded :: world where
  "module_loaded = \<lparr>AppConfig_instance = None, clock = ''2026-01-01 09:00:00'', stdout = []\<rparr>"

section \<open>Pricing\<close>

subsection \<open>Powers of two and bit lengths\<close>

lemma pow2_powi: "pow2 e = 2 powi e"
  by (simp add: pow2_def power_int_def power_one_over)

lemma pow2_add: "pow2 (a + b) = pow2 a * pow2 b"
  by (simp add: pow2_powi power_int_add)

lemma pow2_pos: "0 < pow2 e"
  by (simp add: pow2_def)

lemma pow2_nat: "pow2 (int n) = 2 ^ n"
  by (simp add: pow2_def)

lemma pow2_mono: "a \<le> b \<Longrightarrow> pow2 a \<le> pow2 b"
  by (simp add: pow2_powi power_int_increasing)

lemma pow2_less_cancel:
  assumes "pow2 a \<le> x" and "x < pow2 b"
  shows "a < b"
proof (rule ccontr)
  assume "\<not> a < b"
  then have "pow2 b \<le> pow2 a" by (simp add: pow2_mono)
  with assms show False by simp
qed

lemma bitlen_nat_bounds:
  assumes "0 < M"
  shows "1 \<le> bitlen (int M)" and "pow2 (bitlen (int M) - 1) \<le> real M"
    and "M < 2 ^ nat (bitlen (int M))"
proof -
  from assms have pos: "0 < int M" by simp
  from bitlen_bounds [OF pos]
  have lo: "2 ^ nat (bitlen (int M) - 1) \<le> int M" and hi: "int M < 2 ^ nat (bitlen (int M))"
    by simp_all
  show one: "1 \<le> bitlen (int M)"
    using pos bitlen_eq_zero_iff [of "int M"] bitlen_nonneg [of "int M"] by linarith
  from lo have "(2::real) ^ nat (bitlen (int M) - 1) \<le> real M"
    by (metis of_int_le_iff of_int_of_nat_eq of_int_numeral of_int_power)
  with one show "pow2 (bitlen (int M) - 1) \<le> real M"
    by (simp add: pow2_def)
  from hi show "M < 2 ^ nat (bitlen (int M))"
    by (metis of_nat_less_iff of_nat_numeral of_nat_power)
qed

lemma round_half_even_dvd: "2 ^ k dvd M \<Longrightarrow> round_half_even M k = M div 2 ^ k"
  by (simp add: round_half_even_def Let_def mod_eq_0_iff_dvd)


subsection \<open>Rounding\<close>

lemma valof_finite_nat:
  "valof (Finite s (M * 2 ^ n) t) = Some ((if s then - 1 else 1) * real M * pow2 (int n + t))"
  by (simp add: pow2_add pow2_nat)

lemma round_double_exact:
  assumes M: "0 < M" and m': "m' < 2 ^ 53" and e': "- 1074 \<le> e'" "e' \<le> 971"
    and eq: "real M * pow2 E = real m' * pow2 e'"
  shows "valof (round_double s M E) = Some ((if s then - 1 else 1) * real M * pow2 E)"
proof -
  define L where "L = bitlen (int M)"
  note b = bitlen_nat_bounds [OF M, folded L_def]
  have "pow2 (L - 1 + E) \<le> real M * pow2 E"
    using b(2) pow2_pos [of E] by (simp add: pow2_add)
  moreover have "real m' * pow2 e' < pow2 (53 + e')"
  proof -
    from m' have "real m' < 2 ^ 53"
      by (metis of_nat_less_iff of_nat_numeral of_nat_power)
    then have "real m' * pow2 e' < 2 ^ 53 * pow2 e'"
      using pow2_pos [of e'] by simp
    also have "\<dots> = pow2 (53 + e')"
      using pow2_add [of 53 e'] pow2_nat [of 53] by simp
    finally show ?thesis .
  qed
  ultimately have "L - 1 + E < 53 + e'"
    using eq pow2_less_cancel by metis
  then have le: "E + L - 53 \<le> e'" by simp
  define t where "t = max (E + L - 53) (- 1074)"
  have t: "E + L - 53 \<le> t" "- 1074 \<le> t" "t \<le> e'" "t \<le> 971"
    using le e' by (simp_all add: t_def)
  show ?thesis
  proof (cases "t \<le> E")
    case True
    then have "round_double s M E = Finite s (M * 2 ^ nat (E - t)) t"
      using M t(4) by (simp add: round_double_def Let_def L_def [symmetric] t_def [symmetric])
    with True show ?thesis
      by (simp only: valof_finite_nat) simp
  next
    case False
    define k where "k = nat (t - E)"
    from False have k: "int k = t - E" "0 < k" by (simp_all add: k_def)
    have "real M = real m' * pow2 (e' - E)"
    proof -
      have "real M * pow2 E = real m' * pow2 (e' - E) * pow2 E"
        using eq pow2_add [of "e' - E" E] by simp
      then show ?thesis using pow2_pos [of E] by simp
    qed
    moreover have "pow2 (e' - E) = 2 ^ nat (e' - E)"
      using t(3) False by (simp add: pow2_def)
    ultimately have "real M = real (m' * 2 ^ nat (e' - E))" by simp
    then have Meq: "M = m' * 2 ^ nat (e' - E)" by (simp only: of_nat_eq_iff)
    have "k \<le> nat (e' - E)" using t(3) k(1) by simp
    then have "(2::nat) ^ k dvd 2 ^ nat (e' - E)" by (rule le_imp_power_dvd)
    then have dvd: "2 ^ k dvd M" by (simp add: Meq)
    define q where "q = M div 2 ^ k"
    from dvd have Mq: "M = q * 2 ^ k" by (simp add: q_def)
    have "nat L \<le> 53 + k" using t(1) k(1) by simp
    then have "(2::nat) ^ nat L \<le> 2 ^ (53 + k)" by (rule power_increasing) simp
    with b(3) have "q * 2 ^ k < 2 ^ 53 * 2 ^ k" by (simp add: Mq [symmetric] power_add)
    then have q: "q < 2 ^ 53" by simp
    have "round_double s M E = Finite s q t"
      using M t(4) False q
      by (simp add: round_double_def Let_def L_def [symmetric] t_def [symmetric]
            k_def [symmetric] round_half_even_dvd [OF dvd] q_def [symmetric])
    moreover have "real q * pow2 t = real M * pow2 E"
    proof -
      have "pow2 t = pow2 (int k) * pow2 E" using pow2_add [of "int k" E] k(1) by simp
      then show ?thesis by (simp add: Mq pow2_nat)
    qed
    ultimately show ?thesis by simp
  qed
qed



lemma valof_round_double_zero: "valof (round_double s 0 E) = Some 0"
  by (simp add: round_double_def)

subsection \<open>A double times a positive constant\<close>



lemma float_mul_const_exact:
  assumes nn: "float_nonneg d" and c: "0 < c"
    and x: "valof d = Some x" and y: "is_double y" "valof y = Some (real c * x)"
  shows "valof (float_mul d (Finite False c 0)) = Some (real c * x)"
proof -
  from x obtain s m e where d: "d = Finite s m e" by (cases d) simp_all
  from y(2) obtain s' m' e' where y': "y = Finite s' m' e'" by (cases y) simp_all
  show ?thesis
  proof (cases "m = 0")
    case True
    with d x have "x = 0" by simp
    with d True show ?thesis by (simp add: valof_round_double_zero)
  next
    case False
    with nn d have s: "\<not> s" by (cases s) simp_all
    with d x have xv: "x = real m * pow2 e" by simp
    from False c have pos: "0 < m * c" by simp
    have xpos: "0 < real c * x" using False c pow2_pos [of e] by (simp add: xv)
    have s': "\<not> s'"
    proof
      assume "s'"
      with y(2) y' have "real c * x = - (real m' * pow2 e')" by simp
      moreover have "0 \<le> real m' * pow2 e'" using pow2_pos [of e'] by simp
      ultimately show False using xpos by simp
    qed
    with y(2) y' have "real c * x = real m' * pow2 e'" by simp
    then have eq: "real (m * c) * pow2 e = real m' * pow2 e'" by (simp add: xv mult_ac)
    from y(1) y' have "m' < 2 ^ 53" "- 1074 \<le> e'" "e' \<le> 971" by simp_all
    from round_double_exact [OF pos this eq, of False]
    show ?thesis using d s by (simp add: xv mult_ac)
  qed
qed

text \<open>
  Where the fare of the real-valued body is a double, the body on doubles returns it.
\<close>

lemma calculate_fare_float_ideal:
  assumes "float_nonneg d" and "valof d = Some x"
  shows "is_double y \<Longrightarrow> valof y = Some (NormalPricing_calculate_fare x) \<Longrightarrow>
           valof (NormalPricing_calculate_fare_float d) = Some (NormalPricing_calculate_fare x)"
    and "is_double y \<Longrightarrow> valof y = Some (SurgePricing_calculate_fare x) \<Longrightarrow>
           valof (SurgePricing_calculate_fare_float d) = Some (SurgePricing_calculate_fare x)"
  using float_mul_const_exact [OF assms(1) _ assms(2), of 10 y]
    float_mul_const_exact [OF assms(1) _ assms(2), of 25 y]
  by (simp_all add: NormalPricing_calculate_fare_float_def SurgePricing_calculate_fare_float_def
        NormalPricing_calculate_fare_def SurgePricing_calculate_fare_def mult.commute)

subsection \<open>Three products\<close>








subsection \<open>The rates\<close>




section \<open>Payment\<close>

lemma process_payment_paid: "fst (process_payment pm amount w) = True"
  by (cases pm)
     (simp_all add: UPIPayment_process_payment_def CardPayment_process_payment_def
        WalletPayment_process_payment_def case_prod_beta)

text \<open>
  C5: each of the three \<open>process_payment\<close> bodies returns \<open>True\<close> for every amount
  and in every process state, and so does the dispatched call for every payment method
  \<open>pm\<close>: no payment method yields \<open>False\<close>.
\<close>

theorem process_payment_always_succeeds:
  "fst (UPIPayment_process_payment amount w) = True
   \<and> fst (CardPayment_process_payment amount w) = True
   \<and> fst (WalletPayment_process_payment amount w) = True
   \<and> fst (process_payment pm amount w) = True"
  by (simp add: UPIPayment_process_payment_def CardPayment_process_payment_def
        WalletPayment_process_payment_def case_prod_beta process_payment_paid)

section \<open>Booking\<close>

subsection \<open>The wrapped function and the decorators\<close>

lemma book_ride_wrapped_set:
  assumes "pricing_strategy self = Some strategy" and "payment_method self = Some pm"
  shows "fst (book_ride_wrapped self (pickup, destination, distance_km) w) =
           Some [(''pickup'', PyStr pickup), (''destination'', PyStr destination),
                 (''fare'', PyFloat (calculate_fare strategy distance_km))]"
  using assms
  by (simp add: book_ride_wrapped_def Let_def case_prod_beta process_payment_paid)

lemma book_ride_wrapped_missing:
  assumes "pricing_strategy self = None \<or> payment_method self = None"
  shows "book_ride_wrapped self args w = (None, self, py_print ErrorNotice w)"
  using assms
  by (auto simp add: book_ride_wrapped_def Let_def split: prod.split option.split)

lemma book_ride_wrapped_self: "fst (snd (book_ride_wrapped self args w)) = self"
  by (simp add: book_ride_wrapped_def Let_def case_prod_beta split: option.split)

lemma log_operation_fst:
  "fst (log_operation func self args w) =
     fst (func self args (py_print (BookingStarted (clock w)) w))"
  by (simp add: log_operation_def Let_def case_prod_beta)

lemma log_operation_self:
  "fst (snd (log_operation func self args w)) =
     fst (snd (func self args (py_print (BookingStarted (clock w)) w)))"
  by (simp add: log_operation_def Let_def case_prod_beta)

lemma log_operation_last:
  "last (stdout (snd (snd (log_operation func self args w)))) =
     BookingStatus (if truthy (fst (func self args (py_print (BookingStarted (clock w)) w)))
                    then ''Success'' else ''Failed'')"
  by (simp add: log_operation_def Let_def case_prod_beta py_print_def)

lemma book_ride_result:
  assumes "is_authenticated self" and "pricing_strategy self = Some strategy"
    and "payment_method self = Some pm"
  shows "fst (book_ride self (pickup, destination, distance_km) w) =
           Some [(''pickup'', PyStr pickup), (''destination'', PyStr destination),
                 (''fare'', PyFloat (calculate_fare strategy distance_km))]"
  using assms
  by (simp add: book_ride_def authenticate_def Let_def log_operation_fst book_ride_wrapped_set)

lemma book_ride_self: "fst (snd (book_ride self args w)) = self"
  by (simp add: book_ride_def authenticate_def Let_def log_operation_self book_ride_wrapped_self)

subsection \<open>A booking that goes through\<close>

text \<open>
  C1: when the session is authenticated and both the pricing strategy and the payment
  method are set, \<open>book_ride\<close> returns a result that is not \<open>None\<close>: the dict with
  exactly the keys pickup, destination and fare, holding the two arguments and the fare
  that the active pricing strategy computes from \<open>distance_km\<close>.
\<close>

theorem book_ride_authenticated_configured:
  assumes "is_authenticated self" and "pricing_strategy self = Some strategy"
    and "payment_method self = Some pm"
  shows "fst (book_ride self (pickup, destination, distance_km) w) \<noteq> None
       \<and> fst (book_ride self (pickup, destination, distance_km) w) =
           Some [(''pickup'', PyStr pickup), (''destination'', PyStr destination),
                 (''fare'', PyFloat (calculate_fare strategy distance_km))]"
  using book_ride_result [OF assms] by simp

theorem book_ride_authenticated_configured_witness:
  "is_authenticated (set_payment (set_pricing
       (fst (CabBookingSystem_init ''John'' True module_loaded)) NormalPricing) UPIPayment)
   \<and> pricing_strategy (set_payment (set_pricing
       (fst (CabBookingSystem_init ''John'' True module_loaded)) NormalPricing) UPIPayment)
       = Some NormalPricing
   \<and> payment_method (set_payment (set_pricing
       (fst (CabBookingSystem_init ''John'' True module_loaded)) NormalPricing) UPIPayment)
       = Some UPIPayment
   \<and> fst (book_ride (set_payment (set_pricing
       (fst (CabBookingSystem_init ''John'' True module_loaded)) NormalPricing) UPIPayment)
       (''Indiranagar'', ''HSR Layout'', 8) module_loaded) =
       Some [(''pickup'', PyStr ''Indiranagar''), (''destination'', PyStr ''HSR Layout''),
             (''fare'', PyFloat 80)]"
  using book_ride_authenticated_configured
    [of "set_payment (set_pricing
           (fst (CabBookingSystem_init ''John'' True module_loaded)) NormalPricing) UPIPayment"
        NormalPricing UPIPayment "''Indiranagar''" "''HSR Layout''" 8 module_loaded]
  by (simp add: set_payment_def set_pricing_def CabBookingSystem_init_def case_prod_beta
        NormalPricing_calculate_fare_def)

subsection \<open>The authentication gate\<close>

text \<open>
  C2: when the session is not authenticated, \<open>book_ride\<close> returns \<open>None\<close> whatever the
  two strategy attributes hold, and all it prints is the user line and the failure line
  of \<open>authenticate\<close>: no "Booking started" line, no fare line and no payment line. The
  receiver and the configuration singleton are as before.
\<close>

theorem book_ride_unauthenticated:
  assumes "\<not> is_authenticated self"
  shows "book_ride self args w =
           (None, self, w\<lparr>stdout := stdout w @ [AuthUser (user_name self), AuthFailed]\<rparr>)
       \<and> printed w (snd (snd (book_ride self args w))) = [AuthUser (user_name self), AuthFailed]
       \<and> filter is_booking_started (printed w (snd (snd (book_ride self args w)))) = []
       \<and> filter is_fare_notice (printed w (snd (snd (book_ride self args w)))) = []
       \<and> filter is_payment_notice (printed w (snd (snd (book_ride self args w)))) = []"
  using assms
  by (simp add: book_ride_def authenticate_def Let_def py_print_def printed_def)

theorem book_ride_unauthenticated_witness:
  "\<not> is_authenticated (set_payment (set_pricing
       (fst (CabBookingSystem_init ''Jane'' False module_loaded)) NormalPricing) UPIPayment)
   \<and> fst (book_ride (set_payment (set_pricing
       (fst (CabBookingSystem_init ''Jane'' False module_loaded)) NormalPricing) UPIPayment)
       (''Jayanagar'', ''BTM'', 6) module_loaded) = None
   \<and> printed module_loaded (snd (snd (book_ride (set_payment (set_pricing
       (fst (CabBookingSystem_init ''Jane'' False module_loaded)) NormalPricing) UPIPayment)
       (''Jayanagar'', ''BTM'', 6) module_loaded))) = [AuthUser ''Jane'', AuthFailed]"
  using book_ride_unauthenticated
    [of "set_payment (set_pricing
           (fst (CabBookingSystem_init ''Jane'' False module_loaded)) NormalPricing) UPIPayment"
        "(''Jayanagar'', ''BTM'', 6)" module_loaded]
  by (simp add: set_payment_def set_pricing_def CabBookingSystem_init_def case_prod_beta
        printed_def module_loaded_def)

subsection \<open>A missing strategy\<close>

text \<open>
  C4: when the session is authenticated and the pricing strategy or the payment method
  is unset, \<open>book_ride\<close> returns \<open>None\<close> and prints no payment line; the attempt is
  logged all the same: "Booking started" comes before the error line and
  "Booking Failed" after it.
\<close>

theorem book_ride_missing_policy:
  assumes "is_authenticated self"
    and "pricing_strategy self = None \<or> payment_method self = None"
  shows "book_ride self args w =
           (None, self,
            w\<lparr>stdout := stdout w @ [AuthUser (user_name self), AuthSuccess,
                 BookingStarted (clock w), ErrorNotice, BookingStatus ''Failed'']\<rparr>)
       \<and> printed w (snd (snd (book_ride self args w))) =
           [AuthUser (user_name self), AuthSuccess, BookingStarted (clock w), ErrorNotice,
            BookingStatus ''Failed'']
       \<and> filter is_payment_notice (printed w (snd (snd (book_ride self args w)))) = []"
  using assms(1)
  by (simp add: book_ride_def authenticate_def log_operation_def Let_def
        book_ride_wrapped_missing [OF assms(2)] truthy_def py_print_def printed_def)

theorem book_ride_missing_policy_witness:
  "is_authenticated (set_pricing (fst (CabBookingSystem_init ''John'' True module_loaded))
       SurgePricing)
   \<and> payment_method (set_pricing (fst (CabBookingSystem_init ''John'' True module_loaded))
       SurgePricing) = None
   \<and> fst (book_ride (set_pricing (fst (CabBookingSystem_init ''John'' True module_loaded))
       SurgePricing) (''Airport'', ''Whitefield'', 15) module_loaded) = None
   \<and> printed module_loaded (snd (snd (book_ride
       (set_pricing (fst (CabBookingSystem_init ''John'' True module_loaded)) SurgePricing)
       (''Airport'', ''Whitefield'', 15) module_loaded))) =
       [AuthUser ''John'', AuthSuccess, BookingStarted (clock module_loaded), ErrorNotice,
        BookingStatus ''Failed'']"
  using book_ride_missing_policy
    [of "set_pricing (fst (CabBookingSystem_init ''John'' True module_loaded)) SurgePricing"
        "(''Airport'', ''Whitefield'', 15)" module_loaded]
  by (simp add: set_pricing_def CabBookingSystem_init_def case_prod_beta
        printed_def module_loaded_def)

subsection \<open>The payment branch\<close>

text \<open>
  C7: once both strategies are set, so that a fare is computed, the test of line 110
  is true for every payment method, in whatever process state it is evaluated; the
  wrapped function never takes the \<open>return None\<close> of line 112, and the logged call
  ends with the three-key result and the line "Booking Success".
\<close>

theorem payment_failed_branch_unreachable:
  assumes "pricing_strategy self = Some strategy" and "payment_method self = Some pm"
  shows "fst (process_payment pm (calculate_fare strategy distance_km) w') = True
       \<and> fst (book_ride_wrapped self (pickup, destination, distance_km) w) \<noteq> None
       \<and> fst (log_operation book_ride_wrapped self (pickup, destination, distance_km) w) =
           Some [(''pickup'', PyStr pickup), (''destination'', PyStr destination),
                 (''fare'', PyFloat (calculate_fare strategy distance_km))]
       \<and> last (stdout (snd (snd
             (log_operation book_ride_wrapped self (pickup, destination, distance_km) w)))) =
           BookingStatus ''Success''"
  by (simp add: process_payment_paid log_operation_fst log_operation_last
        book_ride_wrapped_set [OF assms] truthy_def)

theorem payment_failed_branch_unreachable_witness:
  "pricing_strategy (set_payment (set_pricing
       (fst (CabBookingSystem_init ''John'' True module_loaded)) NormalPricing) WalletPayment)
       = Some NormalPricing
   \<and> payment_method (set_payment (set_pricing
       (fst (CabBookingSystem_init ''John'' True module_loaded)) NormalPricing) WalletPayment)
       = Some WalletPayment
   \<and> fst (process_payment WalletPayment (calculate_fare NormalPricing 8) module_loaded) = True
   \<and> fst (log_operation book_ride_wrapped (set_payment (set_pricing
       (fst (CabBookingSystem_init ''John'' True module_loaded)) NormalPricing) WalletPayment)
       (''Indiranagar'', ''HSR Layout'', 8) module_loaded) =
       Some [(''pickup'', PyStr ''Indiranagar''), (''destination'', PyStr ''HSR Layout''),
             (''fare'', PyFloat 80)]
   \<and> last (stdout (snd (snd (log_operation book_ride_wrapped (set_payment (set_pricing
       (fst (CabBookingSystem_init ''John'' True module_loaded)) NormalPricing) WalletPayment)
       (''Indiranagar'', ''HSR Layout'', 8) module_loaded)))) = BookingStatus ''Success''"
  using payment_failed_branch_unreachable
    [of "set_payment (set_pricing
           (fst (CabBookingSystem_init ''John'' True module_loaded)) NormalPricing) WalletPayment"
        NormalPricing WalletPayment 8 module_loaded "''Indiranagar''" "''HSR Layout''"
        module_loaded]
  by (simp add: set_payment_def set_pricing_def CabBookingSystem_init_def case_prod_beta
        NormalPricing_calculate_fare_def)

subsection \<open>Negative distances\<close>



subsection \<open>The two scenarios of the script\<close>

text \<open>
  C8: from any process state, the booking system constructed for "John" (authenticated
  by default), set to Normal pricing and UPI payment, books MG Road to Koramangala over
  5.0 km with the result \<open>{pickup: MG Road, destination: Koramangala, fare: 50.0}\<close>; the
  same booking system, its strategies then replaced by Surge pricing and Card payment,
  books 15.0 km at the fare 375.0 on the very next attempt.
\<close>

theorem scenario_normal_upi_then_surge_card:
  "(let (system0, w0) = CabBookingSystem_init ''John'' True w;
        system1 = set_payment (set_pricing system0 NormalPricing) UPIPayment;
        (result1, system2, w1) = book_ride system1 (''MG Road'', ''Koramangala'', 5) w0;
        system3 = set_payment (set_pricing system2 SurgePricing) CardPayment;
        (result2, system4, w2) = book_ride system3 (''Airport'', ''Whitefield'', 15) w1
    in result1 = Some [(''pickup'', PyStr ''MG Road''), (''destination'', PyStr ''Koramangala''),
                       (''fare'', PyFloat 50)]
     \<and> result2 = Some [(''pickup'', PyStr ''Airport''), (''destination'', PyStr ''Whitefield''),
                       (''fare'', PyFloat 375)]
     \<and> pricing_strategy system3 = Some SurgePricing
     \<and> payment_method system3 = Some CardPayment)"
proof -
  obtain system0 w0 where init: "CabBookingSystem_init ''John'' True w = (system0, w0)"
    by (cases "CabBookingSystem_init ''John'' True w")
  then have auth0: "is_authenticated system0"
    by (auto simp add: CabBookingSystem_init_def case_prod_beta)
  define system1 where "system1 = set_payment (set_pricing system0 NormalPricing) UPIPayment"
  have s1: "is_authenticated system1" "pricing_strategy system1 = Some NormalPricing"
    "payment_method system1 = Some UPIPayment"
    using auth0 by (simp_all add: system1_def set_payment_def set_pricing_def)
  obtain result1 system2 w1 where
    b1: "book_ride system1 (''MG Road'', ''Koramangala'', 5) w0 = (result1, system2, w1)"
    by (cases "book_ride system1 (''MG Road'', ''Koramangala'', 5) w0")
  have r1: "result1 = Some [(''pickup'', PyStr ''MG Road''),
              (''destination'', PyStr ''Koramangala''), (''fare'', PyFloat 50)]"
    using book_ride_result [OF s1, of "''MG Road''" "''Koramangala''" 5 w0] b1
    by (simp add: NormalPricing_calculate_fare_def)
  have same: "system2 = system1"
    using book_ride_self [of system1 "(''MG Road'', ''Koramangala'', 5)" w0] b1 by simp
  define system3 where "system3 = set_payment (set_pricing system2 SurgePricing) CardPayment"
  have s3: "is_authenticated system3" "pricing_strategy system3 = Some SurgePricing"
    "payment_method system3 = Some CardPayment"
    using s1(1) same by (simp_all add: system3_def set_payment_def set_pricing_def)
  obtain result2 system4 w2 where
    b2: "book_ride system3 (''Airport'', ''Whitefield'', 15) w1 = (result2, system4, w2)"
    by (cases "book_ride system3 (''Airport'', ''Whitefield'', 15) w1")
  have r2: "result2 = Some [(''pickup'', PyStr ''Airport''),
              (''destination'', PyStr ''Whitefield''), (''fare'', PyFloat 375)]"
    using book_ride_result [OF s3, of "''Airport''" "''Whitefield''" 15 w1] b2
    by (simp add: SurgePricing_calculate_fare_def)
  show ?thesis
    using init b1 b2 r1 r2 s3
    by (simp add: Let_def system1_def [symmetric] system3_def [symmetric])
qed

subsection \<open>What the methods leave alone\<close>

text \<open>
  C9: \<open>set_pricing\<close> writes the pricing strategy and no other attribute, \<open>set_payment\<close>
  writes the payment method and no other attribute, and \<open>book_ride\<close> leaves the whole
  booking system (user name, authentication flag, both strategies, configuration) as
  it was, whether the booking goes through or not.
\<close>

theorem methods_frame:
  "pricing_strategy (set_pricing self strategy) = Some strategy
   \<and> user_name (set_pricing self strategy) = user_name self
   \<and> is_authenticated (set_pricing self strategy) = is_authenticated self
   \<and> payment_method (set_pricing self strategy) = payment_method self
   \<and> config (set_pricing self strategy) = config self
   \<and> payment_method (set_payment self pm) = Some pm
   \<and> user_name (set_payment self pm) = user_name self
   \<and> is_authenticated (set_payment self pm) = is_authenticated self
   \<and> pricing_strategy (set_payment self pm) = pricing_strategy self
   \<and> config (set_payment self pm) = config self
   \<and> fst (snd (book_ride self args w)) = self"
  by (simp add: set_pricing_def set_payment_def book_ride_self)

section \<open>The configuration singleton\<close>

lemma AppConfig_new_kept:
  "AppConfig_instance w = Some c \<Longrightarrow> AppConfig_new w = (c, w)"
  by (simp add: AppConfig_new_def)

lemma AppConfig_new_first:
  "AppConfig_instance w = None \<Longrightarrow>
     AppConfig_new w = (\<lparr>app_name = ''MiniCab'', currency_symbol = rupee\<rparr>,
       w\<lparr>AppConfig_instance := Some \<lparr>app_name = ''MiniCab'', currency_symbol = rupee\<rparr>\<rparr>)"
  by (simp add: AppConfig_new_def Let_def)

lemma py_print_instance: "AppConfig_instance (py_print n w) = AppConfig_instance w"
  by (simp add: py_print_def)

text \<open>Once the singleton exists, no call of the module replaces or rewrites it.\<close>

lemma process_payment_kept:
  "AppConfig_instance w = Some c \<Longrightarrow>
     AppConfig_instance (snd (process_payment pm amount w)) = Some c"
  by (cases pm)
     (simp_all add: UPIPayment_process_payment_def CardPayment_process_payment_def
        WalletPayment_process_payment_def AppConfig_new_kept py_print_instance)

lemma book_ride_wrapped_kept:
  "AppConfig_instance w = Some c \<Longrightarrow>
     AppConfig_instance (snd (snd (book_ride_wrapped self args w))) = Some c"
  by (simp add: book_ride_wrapped_def Let_def case_prod_beta py_print_instance
        process_payment_kept split: option.split)

lemma log_operation_kept:
  assumes "\<And>w1. AppConfig_instance w1 = Some c \<Longrightarrow>
             AppConfig_instance (snd (snd (func self args w1))) = Some c"
    and "AppConfig_instance w = Some c"
  shows "AppConfig_instance (snd (snd (log_operation func self args w))) = Some c"
  using assms
  by (simp add: log_operation_def Let_def case_prod_beta py_print_instance)

lemma book_ride_kept:
  "AppConfig_instance w = Some c \<Longrightarrow>
     AppConfig_instance (snd (snd (book_ride self args w))) = Some c"
  by (simp add: book_ride_def authenticate_def Let_def py_print_instance
        log_operation_kept book_ride_wrapped_kept)

lemma perform_kept:
  "AppConfig_instance w = Some c \<Longrightarrow> AppConfig_instance (perform op w) = Some c"
  by (cases op)
     (simp_all add: AppConfig_new_kept CabBookingSystem_init_def process_payment_kept
        book_ride_kept)

lemma run_kept:
  "AppConfig_instance w = Some c \<Longrightarrow> AppConfig_instance (run ops w) = Some c"
  unfolding run_def
  by (induction ops arbitrary: w) (simp_all add: perform_kept)

lemma run_append: "run (ops @ later) w = run later (run ops w)"
  by (simp add: run_def)

text \<open>
  The invariant of a process: the class attribute is \<open>None\<close>, or it holds the object
  that lines 12-14 built.
\<close>

lemma perform_default:
  assumes "AppConfig_instance w = None \<or>
           AppConfig_instance w = Some \<lparr>app_name = ''MiniCab'', currency_symbol = rupee\<rparr>"
  shows "AppConfig_instance (perform op w) = None \<or>
         AppConfig_instance (perform op w) =
           Some \<lparr>app_name = ''MiniCab'', currency_symbol = rupee\<rparr>"
proof (cases "AppConfig_instance w")
  case (Some c)
  with assms perform_kept [OF Some, of op] show ?thesis by simp
next
  case None
  note first = AppConfig_new_first [OF None]
  show ?thesis
  proof (cases op)
    case Access
    then show ?thesis by (simp add: first)
  next
    case (Construct name authenticated)
    then show ?thesis by (simp add: CabBookingSystem_init_def first)
  next
    case (Pay pm amount)
    then show ?thesis
      by (cases pm)
         (simp_all add: UPIPayment_process_payment_def CardPayment_process_payment_def
            WalletPayment_process_payment_def first py_print_instance)
  next
    case (Book system pickup destination distance_km)
    have pay: "AppConfig_instance (snd (process_payment pm amount w1)) =
                 Some \<lparr>app_name = ''MiniCab'', currency_symbol = rupee\<rparr>"
      if "AppConfig_instance w1 = None" for pm amount w1
      by (cases pm)
         (simp_all add: UPIPayment_process_payment_def CardPayment_process_payment_def
            WalletPayment_process_payment_def AppConfig_new_first [OF that] py_print_instance)
    from Book None show ?thesis
      by (simp add: book_ride_def authenticate_def log_operation_def book_ride_wrapped_def
            Let_def case_prod_beta py_print_instance pay split: option.split)
  next
    case (Tick t)
    with None show ?thesis by simp
  qed
qed

lemma run_default:
  assumes "AppConfig_instance w = None \<or>
           AppConfig_instance w = Some \<lparr>app_name = ''MiniCab'', currency_symbol = rupee\<rparr>"
  shows "AppConfig_instance (run ops w) = None \<or>
         AppConfig_instance (run ops w) =
           Some \<lparr>app_name = ''MiniCab'', currency_symbol = rupee\<rparr>"
  using assms unfolding run_def
proof (induction ops arbitrary: w)
  case Nil
  then show ?case by simp
next
  case (Cons op ops)
  from Cons.IH [OF perform_default [OF Cons.prems]] show ?case by simp
qed

lemma access_default:
  assumes "AppConfig_instance w = None \<or>
           AppConfig_instance w = Some \<lparr>app_name = ''MiniCab'', currency_symbol = rupee\<rparr>"
  shows "fst (AppConfig_new w) = \<lparr>app_name = ''MiniCab'', currency_symbol = rupee\<rparr>"
  using assms by (auto simp add: AppConfig_new_first AppConfig_new_kept)

text \<open>
  C6: in a process that starts with the class attribute unset, an access to the shared
  configuration after any calls \<open>ops\<close> of the module returns the application name
  MiniCab and the rupee sign; an access after any further calls \<open>later\<close> returns the
  same fields, and so does the configuration a booking system takes at its
  construction; and once the singleton exists, the further calls leave it as it is.
\<close>

theorem shared_configuration_stable:
  assumes "AppConfig_instance w0 = None"
  shows "fst (AppConfig_new (run ops w0)) = \<lparr>app_name = ''MiniCab'', currency_symbol = rupee\<rparr>
       \<and> fst (AppConfig_new (run (ops @ later) w0)) = fst (AppConfig_new (run ops w0))
       \<and> config (fst (CabBookingSystem_init name authenticated (run (ops @ later) w0))) =
           fst (AppConfig_new (run ops w0))
       \<and> (\<forall>c. AppConfig_instance (run ops w0) = Some c \<longrightarrow>
             AppConfig_instance (run (ops @ later) w0) = Some c)"
proof -
  have d: "fst (AppConfig_new (run xs w0)) =
             \<lparr>app_name = ''MiniCab'', currency_symbol = rupee\<rparr>" for xs
    using assms by (intro access_default run_default) simp
  have c: "config (fst (CabBookingSystem_init name authenticated w)) = fst (AppConfig_new w)"
    for w
    by (simp add: CabBookingSystem_init_def case_prod_beta)
  have k: "\<forall>c. AppConfig_instance (run ops w0) = Some c \<longrightarrow>
             AppConfig_instance (run (ops @ later) w0) = Some c"
    by (simp add: run_append run_kept)
  from d c k show ?thesis by simp
qed

theorem shared_configuration_stable_witness:
  "AppConfig_instance module_loaded = None
   \<and> fst (AppConfig_new (run [Construct ''John'' True] module_loaded)) =
       \<lparr>app_name = ''MiniCab'', currency_symbol = rupee\<rparr>
   \<and> fst (AppConfig_new (run ([Construct ''John'' True] @ [Pay UPIPayment 50, Access])
       module_loaded)) = fst (AppConfig_new (run [Construct ''John'' True] module_loaded))
   \<and> AppConfig_instance (run [Construct ''John'' True] module_loaded) =
       Some \<lparr>app_name = ''MiniCab'', currency_symbol = rupee\<rparr>
   \<and> AppConfig_instance (run ([Construct ''John'' True] @ [Pay UPIPayment 50, Access])
       module_loaded) = Some \<lparr>app_name = ''MiniCab'', currency_symbol = rupee\<rparr>"
proof -
  have unset: "AppConfig_instance module_loaded = None"
    by (simp add: module_loaded_def)
  have made: "AppConfig_instance (run [Construct ''John'' True] module_loaded) =
                Some \<lparr>app_name = ''MiniCab'', currency_symbol = rupee\<rparr>"
    by (simp add: run_def CabBookingSystem_init_def AppConfig_new_def module_loaded_def
          Let_def)
  from shared_configuration_stable
         [OF unset, of "[Construct ''John'' True]" "[Pay UPIPayment 50, Access]"]
       unset made
  show ?thesis by simp
qed

end
